theory Spec2Isabelle
  imports Main "HOL-Library.Char_ord" "HOL-Library.List_Lexorder"
begin

section \<open>Security\_logon\_logoff.py: logon/logoff and boot/shutdown events in a time window\<close>

text \<open>
  A shallow embedding of \<^verbatim>\<open>src/Security_logon_logoff.py\<close>.  Python strings are
  \<^typ>\<open>string\<close>, \<^verbatim>\<open>None\<close>-able values are options, an exception is the
  left summand of a sum, and the generator \<^verbatim>\<open>iter_relevant_events\<close> is the list
  of the rows it yields, or the exception that ends it.
\<close>

datatype error = AttributeError | ValueError | OverflowError | KeyError

subsection \<open>Strings\<close>

text \<open>\<^verbatim>\<open>x or "-"\<close> for a string-or-None \<^verbatim>\<open>x\<close>: None and the empty string are falsy.\<close>

definition or_dash :: "string option \<Rightarrow> string" where
  "or_dash x = (case x of None \<Rightarrow> ''-'' | Some s \<Rightarrow> if s = [] then ''-'' else s)"

text \<open>\<^verbatim>\<open>str.isspace\<close> on the code points below 256.\<close>

definition is_space :: "char \<Rightarrow> bool" where
  "is_space c = (of_char c \<in> {9, 10, 11, 12, 13, 28, 29, 30, 31, 32, 133, 160 :: nat})"

definition strip :: "string \<Rightarrow> string" where
  "strip s = rev (dropWhile is_space (rev (dropWhile is_space s)))"

text \<open>\<^verbatim>\<open>s.replace("Z", "+00:00")\<close>: every occurrence is replaced.\<close>

definition replace_Z :: "string \<Rightarrow> string" where
  "replace_Z s = concat (map (\<lambda>c. if c = CHR ''Z'' then ''+00:00'' else [c]) s)"

definition endswith_Z :: "string \<Rightarrow> bool" where
  "endswith_Z s = (s \<noteq> [] \<and> last s = CHR ''Z'')"

subsection \<open>ElementTree elements\<close>

text \<open>
  An \<^verbatim>\<open>xml.etree.ElementTree.Element\<close>: tag, attribute dictionary, text (None when the
  element has none) and children in document order.
\<close>

datatype element =
  Element (tag: string) (attrib: "(string \<times> string) list") (elem_text: "string option")
    (children: "element list")

text \<open>\<^verbatim>\<open>elem.find(t)\<close> and \<^verbatim>\<open>elem.findall(t)\<close> for a plain tag \<^verbatim>\<open>t\<close>: direct children.\<close>

definition find_child :: "element \<Rightarrow> string \<Rightarrow> element option" where
  "find_child elem t = List.find (\<lambda>c. tag c = t) (children elem)"

definition findall_children :: "element \<Rightarrow> string \<Rightarrow> element list" where
  "findall_children elem t = filter (\<lambda>c. tag c = t) (children elem)"

text \<open>\<^verbatim>\<open>root.findall(".//t")\<close>: every descendant with that tag, in document order.\<close>

fun descendants :: "element \<Rightarrow> element list" where
  "descendants (Element t a x cs) = concat (map (\<lambda>c. c # descendants c) cs)"

definition findall_descendants :: "element \<Rightarrow> string \<Rightarrow> element list" where
  "findall_descendants root t = filter (\<lambda>c. tag c = t) (descendants root)"

definition get_text :: "element \<Rightarrow> string \<Rightarrow> string option" where
  "get_text elem path = (case find_child elem path of None \<Rightarrow> None | Some x \<Rightarrow> elem_text x)"

definition get_attr :: "element \<Rightarrow> string \<Rightarrow> string \<Rightarrow> string option" where
  "get_attr elem path attr =
     (case find_child elem path of None \<Rightarrow> None | Some x \<Rightarrow> map_of (attrib x) attr)"

subsection \<open>The event tables\<close>

definition WINDOW_START_HOUR :: nat where "WINDOW_START_HOUR = 9"
definition WINDOW_END_HOUR :: nat where "WINDOW_END_HOUR = 18"

definition SYSTEM_EVENTS :: "string \<rightharpoonup> string" where
  "SYSTEM_EVENTS = map_of
     [(''12'', ''SystemStart (Kernel-General)''),
      (''13'', ''SystemShutdown (Kernel-General)''),
      (''6005'', ''EventLog Started (Boot)''),
      (''6006'', ''EventLog Stopped (Shutdown)''),
      (''6008'', ''Unexpected Shutdown'')]"

definition SECURITY_EVENTS :: "string \<rightharpoonup> string" where
  "SECURITY_EVENTS = map_of
     [(''4624'', ''Logon Success''),
      (''4625'', ''Logon Failure''),
      (''4634'', ''Logoff''),
      (''4647'', ''User Initiated Logoff''),
      (''4672'', ''Special Privileges Assigned''),
      (''4800'', ''Workstation Locked''),
      (''4801'', ''Workstation Unlocked'')]"

definition ALL_EVENTS :: "string \<rightharpoonup> string" where
  "ALL_EVENTS = SYSTEM_EVENTS ++ SECURITY_EVENTS"

subsection \<open>\<^verbatim>\<open>extract_username\<close>\<close>

text \<open>
  The loop over \<^verbatim>\<open>ed.findall("Data")\<close>: the first element whose Name is one of the two
  and whose text is truthy sets \<^verbatim>\<open>user\<close> and breaks; otherwise \<^verbatim>\<open>user\<close> stays None.
\<close>

fun scan_data :: "element list \<Rightarrow> string option" where
  "scan_data [] = None"
| "scan_data (d # ds) =
     (let name = map_of (attrib d) ''Name'' in
      if name = Some ''TargetUserName'' \<or> name = Some ''SubjectUserName'' then
        (case elem_text d of
           None \<Rightarrow> scan_data ds
         | Some t \<Rightarrow> if t \<noteq> [] then Some t else scan_data ds)
      else scan_data ds)"

definition extract_username :: "element \<Rightarrow> string option" where
  "extract_username event_elem =
     (case find_child event_elem ''EventData'' of
        None \<Rightarrow> None
      | Some ed \<Rightarrow> scan_data (findall_children ed ''Data''))"

subsection \<open>Calendar arithmetic of the \<^verbatim>\<open>datetime\<close> module\<close>

text \<open>
  The \<^verbatim>\<open>datetime\<close> class, its ISO parser and formatter and \<^verbatim>\<open>astimezone\<close> belong to
  Python's standard library.  They are written out after the library's reference
  implementation (\<^verbatim>\<open>Lib/_pydatetime.py\<close> of CPython 3.12), function by function and
  under the library's names without their leading underscore.
\<close>

definition MINYEAR :: int where "MINYEAR = 1"
definition MAXYEAR :: int where "MAXYEAR = 9999"
definition MAXORDINAL :: int where "MAXORDINAL = 3652059"

definition is_leap :: "int \<Rightarrow> bool" where
  "is_leap y = (y mod 4 = 0 \<and> (y mod 100 \<noteq> 0 \<or> y mod 400 = 0))"

definition days_before_year :: "int \<Rightarrow> int" where
  "days_before_year y = (let y1 = y - 1 in y1 * 365 + y1 div 4 - y1 div 100 + y1 div 400)"

definition DAYS_IN_MONTH :: "int list" where
  "DAYS_IN_MONTH = [-1, 31, 28, 31, 30, 31, 30, 31, 31, 30, 31, 30, 31]"

definition DAYS_BEFORE_MONTH :: "int list" where
  "DAYS_BEFORE_MONTH = [-1, 0, 31, 59, 90, 120, 151, 181, 212, 243, 273, 304, 334]"

text \<open>Both are called with a month in 1..12 only (the library asserts it).\<close>

definition days_in_month :: "int \<Rightarrow> int \<Rightarrow> int" where
  "days_in_month y m = (if m = 2 \<and> is_leap y then 29 else DAYS_IN_MONTH ! nat m)"

definition days_before_month :: "int \<Rightarrow> int \<Rightarrow> int" where
  "days_before_month y m = DAYS_BEFORE_MONTH ! nat m + (if m > 2 \<and> is_leap y then 1 else 0)"

definition ymd2ord :: "int \<Rightarrow> int \<Rightarrow> int \<Rightarrow> int" where
  "ymd2ord y m d = days_before_year y + days_before_month y m + d"

definition DI400Y :: int where "DI400Y = 146097"
definition DI100Y :: int where "DI100Y = 36524"
definition DI4Y :: int where "DI4Y = 1461"

definition ord2ymd :: "int \<Rightarrow> int \<times> int \<times> int" where
  "ord2ymd n0 =
     (let n = n0 - 1;
          n400 = n div DI400Y; n = n mod DI400Y;
          y = n400 * 400 + 1;
          n100 = n div DI100Y; n = n mod DI100Y;
          n4 = n div DI4Y; n = n mod DI4Y;
          n1 = n div 365; n = n mod 365;
          y = y + n100 * 100 + n4 * 4 + n1
      in if n1 = 4 \<or> n100 = 4 then (y - 1, 12, 31)
         else
           let leapyear = (n1 = 3 \<and> (n4 \<noteq> 24 \<or> n100 = 3));
               m = (n + 50) div 32;
               preceding = DAYS_BEFORE_MONTH ! nat m + (if m > 2 \<and> leapyear then 1 else 0)
           in if preceding > n
              then (y, m - 1,
                    n - (preceding - (DAYS_IN_MONTH ! nat (m - 1)
                                      + (if m - 1 = 2 \<and> leapyear then 1 else 0))) + 1)
              else (y, m, n - preceding + 1))"

text \<open>
  A \<^verbatim>\<open>datetime\<close> object.  \<^verbatim>\<open>tzinfo\<close> is None for a naive datetime; for an aware one
  the model keeps what the program reads of the tzinfo object: the UTC offset it reports
  for this datetime, in microseconds (a \<^verbatim>\<open>timedelta\<close>).
\<close>

record datetime =
  year :: nat
  month :: nat
  day :: nat
  hour :: nat
  minute :: nat
  second :: nat
  microsecond :: nat
  tzinfo :: "int option"

text \<open>The constructor, with \<^verbatim>\<open>_check_date_fields\<close> and \<^verbatim>\<open>_check_time_fields\<close>.\<close>

definition datetime_new ::
  "int \<Rightarrow> int \<Rightarrow> int \<Rightarrow> int \<Rightarrow> int \<Rightarrow> int \<Rightarrow> int \<Rightarrow> int option \<Rightarrow> error + datetime" where
  "datetime_new y m d hh mm ss us tz =
     (if \<not> (MINYEAR \<le> y \<and> y \<le> MAXYEAR) then Inl ValueError
      else if \<not> (1 \<le> m \<and> m \<le> 12) then Inl ValueError
      else if \<not> (1 \<le> d \<and> d \<le> days_in_month y m) then Inl ValueError
      else if \<not> (0 \<le> hh \<and> hh \<le> 23) then Inl ValueError
      else if \<not> (0 \<le> mm \<and> mm \<le> 59) then Inl ValueError
      else if \<not> (0 \<le> ss \<and> ss \<le> 59) then Inl ValueError
      else if \<not> (0 \<le> us \<and> us \<le> 999999) then Inl ValueError
      else Inr \<lparr>year = nat y, month = nat m, day = nat d, hour = nat hh, minute = nat mm,
                second = nat ss, microsecond = nat us, tzinfo = tz\<rparr>)"

definition toordinal :: "datetime \<Rightarrow> int" where
  "toordinal dt = ymd2ord (int (year dt)) (int (month dt)) (int (day dt))"

text \<open>
  \<^verbatim>\<open>datetime.__add__\<close> with a \<^verbatim>\<open>timedelta\<close> given in microseconds: the sum is
  normalised into days, seconds and microseconds, and a day outside 1..MAXORDINAL is an
  OverflowError.  \<^verbatim>\<open>dt - td\<close> is \<^verbatim>\<open>dt + (-td)\<close>.
\<close>

definition datetime_add :: "datetime \<Rightarrow> int \<Rightarrow> error + datetime" where
  "datetime_add dt td =
     (let total = (((toordinal dt * 24 + int (hour dt)) * 60 + int (minute dt)) * 60
                    + int (second dt)) * 1000000 + int (microsecond dt) + td;
          days = total div 86400000000;
          secs = (total mod 86400000000) div 1000000;
          us = total mod 1000000;
          hh = secs div 3600;
          mm = (secs mod 3600) div 60;
          ss = secs mod 60
      in if 0 < days \<and> days \<le> MAXORDINAL
         then (case ord2ymd days of (y, m, d) \<Rightarrow> datetime_new y m d hh mm ss us (tzinfo dt))
         else Inl OverflowError)"

text \<open>
  \<^verbatim>\<open>dt.astimezone(tz)\<close> for a \<^verbatim>\<open>ZoneInfo\<close> \<open>tz\<close>.  Two things come from outside the
  program and are parameters:
  \<^item> \<open>sys\<close>, the zone of the machine: \<^verbatim>\<open>_local_timezone()\<close> of a naive datetime asks the
    operating system for the offset (seconds east of UTC) of that local time;
  \<^item> \<open>tz\<close>, the zone's table in the time zone database: the offset (seconds east of
    UTC) in force at a POSIX timestamp, which is what \<^verbatim>\<open>ZoneInfo.fromutc\<close> adds.
  The datetime that \<^verbatim>\<open>fromutc\<close> returns reports that same offset.
\<close>

definition posix_timestamp :: "datetime \<Rightarrow> int" where
  "posix_timestamp dt =
     (toordinal dt - 719163) * 86400 + int (hour dt) * 3600 + int (minute dt) * 60
       + int (second dt)"

definition astimezone :: "(datetime \<Rightarrow> int) \<Rightarrow> (int \<Rightarrow> int) \<Rightarrow> datetime \<Rightarrow> error + datetime" where
  "astimezone sys tz dt =
     (let myoffset = (case tzinfo dt of None \<Rightarrow> sys dt * 1000000 | Some off \<Rightarrow> off)
      in case datetime_add dt (- myoffset) of
           Inl e \<Rightarrow> Inl e
         | Inr utc \<Rightarrow>
             (let off = tz (posix_timestamp utc) * 1000000
              in case datetime_add utc off of
                   Inl e \<Rightarrow> Inl e
                 | Inr loc \<Rightarrow> Inr (loc\<lparr>tzinfo := Some off\<rparr>)))"

text \<open>
  \<^verbatim>\<open>ZoneInfo("America/New_York")\<close> by the rule the database has for the zone since 2007:
  five hours behind UTC, four from 07:00 UTC on the second Sunday of March until
  06:00 UTC on the first Sunday of November.  Timestamps before 2007 follow older rules
  of the database, which this definition does not describe.
\<close>

definition first_sunday_from :: "int \<Rightarrow> int \<Rightarrow> int \<Rightarrow> int" where
  "first_sunday_from y m d = (let n = ymd2ord y m d in n + (7 - n mod 7) mod 7)"

definition LOCAL_TZ :: "int \<Rightarrow> int" where
  "LOCAL_TZ ts =
     (case ord2ymd (ts div 86400 + 719163) of
        (y, m, d) \<Rightarrow>
          let dst_start = (first_sunday_from y 3 8 - 719163) * 86400 + 7 * 3600;
              dst_end = (first_sunday_from y 11 1 - 719163) * 86400 + 6 * 3600
          in if dst_start \<le> ts \<and> ts < dst_end then - 14400 else - 18000)"

subsection \<open>\<^verbatim>\<open>datetime.fromisoformat\<close>\<close>

text \<open>
  The parser the program runs is the C one (\<^verbatim>\<open>Modules/_datetimemodule.c\<close>, CPython 3.11
  and 3.12), which walks a pointer through a NUL-terminated buffer.  Here the pointer is
  the rest of the string, and reading it at the end gives NUL.  Every failure of the
  parser reaches the caller as ValueError.
\<close>

definition NUL :: char where "NUL = CHR 0x00"

definition peek :: "string \<Rightarrow> char" where
  "peek p = (case p of [] \<Rightarrow> NUL | c # _ \<Rightarrow> c)"

definition is_digit :: "char \<Rightarrow> bool" where
  "is_digit c = (48 \<le> (of_char c :: nat) \<and> (of_char c :: nat) \<le> 57)"

text \<open>\<^verbatim>\<open>parse_digits(p, &var, n)\<close>: exactly \<open>n\<close> decimal digits, or failure.\<close>

fun parse_digits_from :: "int \<Rightarrow> string \<Rightarrow> nat \<Rightarrow> (int \<times> string) option" where
  "parse_digits_from acc p 0 = Some (acc, p)"
| "parse_digits_from acc [] (Suc n) = None"
| "parse_digits_from acc (c # p) (Suc n) =
     (if is_digit c then parse_digits_from (acc * 10 + (int (of_char c) - 48)) p n else None)"

definition parse_digits :: "string \<Rightarrow> nat \<Rightarrow> (int \<times> string) option" where
  "parse_digits p n = parse_digits_from 0 p n"

definition find_isoformat_datetime_separator :: "string \<Rightarrow> error + nat" where
  "find_isoformat_datetime_separator dtstr =
     (let len = length dtstr in
      if len = 7 then Inr 7
      else if dtstr ! 4 = CHR ''-'' then
        (if dtstr ! 5 = CHR ''W'' then
           (if len < 8 then Inl ValueError
            else if len > 8 \<and> dtstr ! 8 = CHR ''-'' then
              (if len = 9 then Inl ValueError
               else if len > 10 \<and> is_digit (dtstr ! 10) then Inr 8
               else Inr 10)
            else Inr 8)
         else Inr 10)
      else if dtstr ! 4 = CHR ''W'' then
        (let idx = 7 + length (takeWhile is_digit (drop 7 dtstr)) in
         if idx < 9 then Inr idx else if idx mod 2 = 0 then Inr 7 else Inr 8)
      else Inr 8)"

definition isoweek1monday :: "int \<Rightarrow> int" where
  "isoweek1monday y =
     (let firstday = ymd2ord y 1 1;
          firstweekday = (firstday + 6) mod 7;
          week1monday = firstday - firstweekday
      in if firstweekday > 3 then week1monday + 7 else week1monday)"

definition isoweek_to_gregorian :: "int \<Rightarrow> int \<Rightarrow> int \<Rightarrow> error + (int \<times> int \<times> int)" where
  "isoweek_to_gregorian y week d =
     (if \<not> (MINYEAR \<le> y \<and> y \<le> MAXYEAR) then Inl ValueError
      else if \<not> (0 < week \<and> week < 53) \<and>
              \<not> (week = 53 \<and> (let first_weekday = ymd2ord y 1 1 mod 7
                                in first_weekday = 4 \<or> (first_weekday = 3 \<and> is_leap y)))
      then Inl ValueError
      else if \<not> (0 < d \<and> d < 8) then Inl ValueError
      else Inr (ord2ymd (isoweek1monday y + ((week - 1) * 7 + (d - 1)))))"

definition parse_isoformat_date :: "string \<Rightarrow> nat \<Rightarrow> error + (int \<times> int \<times> int)" where
  "parse_isoformat_date dtstr len =
     (case parse_digits dtstr 4 of
        None \<Rightarrow> Inl ValueError
      | Some (y, p) \<Rightarrow>
          let uses_separator = (peek p = CHR ''-'');
              p = (if uses_separator then tl p else p)
          in if peek p = CHR ''W'' then
               (case parse_digits (tl p) 2 of
                  None \<Rightarrow> Inl ValueError
                | Some (iso_week, p) \<Rightarrow>
                    if length dtstr - length p < len then
                      (if uses_separator \<and> peek p \<noteq> CHR ''-'' then Inl ValueError
                       else case parse_digits (if uses_separator then tl p else p) 1 of
                              None \<Rightarrow> Inl ValueError
                            | Some (iso_day, p) \<Rightarrow> isoweek_to_gregorian y iso_week iso_day)
                    else isoweek_to_gregorian y iso_week 1)
             else
               (case parse_digits p 2 of
                  None \<Rightarrow> Inl ValueError
                | Some (m, p) \<Rightarrow>
                    if uses_separator \<and> peek p \<noteq> CHR ''-'' then Inl ValueError
                    else case parse_digits (if uses_separator then tl p else p) 2 of
                           None \<Rightarrow> Inl ValueError
                         | Some (d, p) \<Rightarrow> Inr (y, m, d)))"

text \<open>
  The loop of \<^verbatim>\<open>parse_hh_mm_ss_ff\<close> over hour, minute and second.  \<open>k\<close> counts the
  components still to read (3 at the start), \<open>p\<close> is the text up to \<^verbatim>\<open>p_end\<close> and
  \<open>e\<close> the character at \<^verbatim>\<open>p_end\<close>.  The result is the components read and either
  the loop's own return value (True for ``not at the end of the string'') or the
  pointer at which the fraction is parsed.
\<close>

fun parse_hms :: "nat \<Rightarrow> bool \<Rightarrow> int list \<Rightarrow> string \<Rightarrow> char \<Rightarrow> (int list \<times> (bool + string)) option" where
  "parse_hms 0 has_separator vals p e = Some (vals, Inr p)"
| "parse_hms (Suc k) has_separator vals p e =
     (case parse_digits p 2 of
        None \<Rightarrow> None
      | Some (v, p1) \<Rightarrow>
          let c = (case p1 of [] \<Rightarrow> e | x # _ \<Rightarrow> x);
              has_separator = (if Suc k = 3 then c = CHR '':'' else has_separator)
          in if length p1 \<le> 1 then Some (vals @ [v], Inl (c \<noteq> NUL))
             else if has_separator \<and> c = CHR '':'' then parse_hms k has_separator (vals @ [v]) (tl p1) e
             else if c = CHR ''.'' \<or> c = CHR '','' then Some (vals @ [v], Inr (tl p1))
             else if \<not> has_separator then parse_hms k has_separator (vals @ [v]) p1 e
             else None)"

definition correction :: "int list" where
  "correction = [100000, 10000, 1000, 100, 10]"

text \<open>Hour, minute, second, microsecond and the return value.\<close>

definition parse_hh_mm_ss_ff :: "string \<Rightarrow> char \<Rightarrow> (int \<times> int \<times> int \<times> int \<times> bool) option" where
  "parse_hh_mm_ss_ff tstr e =
     (case parse_hms 3 True [] tstr e of
        None \<Rightarrow> None
      | Some (vals, r) \<Rightarrow>
          let hh = (vals @ [0, 0, 0]) ! 0; mm = (vals @ [0, 0, 0]) ! 1; ss = (vals @ [0, 0, 0]) ! 2
          in case r of
               Inl rv \<Rightarrow> Some (hh, mm, ss, 0, rv)
             | Inr p \<Rightarrow>
                 let len_remains = length p;
                     to_parse = (if len_remains \<ge> 6 then 6 else len_remains)
                 in case parse_digits p to_parse of
                      None \<Rightarrow> None
                    | Some (us, p) \<Rightarrow>
                        let us = (if to_parse < 6 then us * correction ! (to_parse - 1) else us);
                            p = dropWhile is_digit p
                        in Some (hh, mm, ss, us, peek (p @ [e]) \<noteq> NUL))"

definition is_tz_char :: "char \<Rightarrow> bool" where
  "is_tz_char c = (c = CHR ''Z'' \<or> c = CHR ''+'' \<or> c = CHR ''-'')"

text \<open>
  The time and the offset (seconds and microseconds, when the string has one).
\<close>

definition parse_isoformat_time ::
  "string \<Rightarrow> error + (int \<times> int \<times> int \<times> int \<times> (int \<times> int) option)" where
  "parse_isoformat_time dtstr =
     (let timestr = takeWhile (\<lambda>c. \<not> is_tz_char c) dtstr;
          tzinfo_pos = dropWhile (\<lambda>c. \<not> is_tz_char c) dtstr
      in case parse_hh_mm_ss_ff timestr (peek tzinfo_pos) of
           None \<Rightarrow> Inl ValueError
         | Some (hh, mm, ss, us, rv) \<Rightarrow>
             if tzinfo_pos = [] then
               (if rv then Inl ValueError else Inr (hh, mm, ss, us, None))
             else if peek tzinfo_pos = CHR ''Z'' then
               (if tl tzinfo_pos \<noteq> [] then Inl ValueError else Inr (hh, mm, ss, us, Some (0, 0)))
             else
               (let tzsign = (if peek tzinfo_pos = CHR ''-'' then - 1 else 1 :: int)
                in case parse_hh_mm_ss_ff (tl tzinfo_pos) NUL of
                     None \<Rightarrow> Inl ValueError
                   | Some (tzhour, tzminute, tzsecond, tzus, rv) \<Rightarrow>
                       if rv then Inl ValueError
                       else Inr (hh, mm, ss, us,
                                 Some (tzsign * (tzhour * 3600 + tzminute * 60 + tzsecond),
                                       tzsign * tzus))))"

text \<open>
  \<^verbatim>\<open>tzinfo_from_isoformat_results\<close>: offset zero seconds is \<^verbatim>\<open>timezone.utc\<close>, any other
  offset a \<^verbatim>\<open>timezone\<close>, which must lie strictly between minus and plus 24 hours.
\<close>

definition tzinfo_from_isoformat_results :: "(int \<times> int) option \<Rightarrow> error + int option" where
  "tzinfo_from_isoformat_results r =
     (case r of
        None \<Rightarrow> Inr None
      | Some (tzoffset, tz_useconds) \<Rightarrow>
          if tzoffset = 0 then Inr (Some 0)
          else let off = tzoffset * 1000000 + tz_useconds
               in if - 86400000000 < off \<and> off < 86400000000 then Inr (Some off)
                  else Inl ValueError)"

definition fromisoformat :: "string \<Rightarrow> error + datetime" where
  "fromisoformat dtstr =
     (if length dtstr < 7 then Inl ValueError
      else case find_isoformat_datetime_separator dtstr of
        Inl e \<Rightarrow> Inl e
      | Inr separator_location \<Rightarrow>
          (case parse_isoformat_date dtstr separator_location of
             Inl e \<Rightarrow> Inl e
           | Inr (y, m, d) \<Rightarrow>
               (case (if length dtstr > separator_location
                      then parse_isoformat_time (drop (separator_location + 1) dtstr)
                      else Inr (0, 0, 0, 0, None)) of
                  Inl e \<Rightarrow> Inl e
                | Inr (hh, mm, ss, us, tzr) \<Rightarrow>
                    (case tzinfo_from_isoformat_results tzr of
                       Inl e \<Rightarrow> Inl e
                     | Inr tz \<Rightarrow> datetime_new y m d hh mm ss us tz))))"

subsection \<open>\<^verbatim>\<open>datetime.isoformat\<close>\<close>

fun decimal :: "nat \<Rightarrow> string" where
  "decimal n = (if n < 10 then [char_of (48 + n)] else decimal (n div 10) @ [char_of (48 + n mod 10)])"

declare decimal.simps [simp del]

text \<open>\<^verbatim>\<open>"%0wd" % n\<close> for a number that is not negative.\<close>

definition fmt_d :: "nat \<Rightarrow> nat \<Rightarrow> string" where
  "fmt_d w n = replicate (w - length (decimal n)) (CHR ''0'') @ decimal n"

definition format_offset :: "int option \<Rightarrow> string" where
  "format_offset off =
     (case off of
        None \<Rightarrow> []
      | Some td \<Rightarrow>
          let sign = (if td < 0 then CHR ''-'' else CHR ''+'');
              a = \<bar>td\<bar>;
              hh = a div 3600000000;
              mm = (a mod 3600000000) div 60000000;
              ss = a mod 60000000
          in [sign] @ fmt_d 2 (nat hh) @ '':'' @ fmt_d 2 (nat mm) @
             (if ss \<noteq> 0
              then '':'' @ fmt_d 2 (nat (ss div 1000000)) @
                   (if ss mod 1000000 \<noteq> 0 then ''.'' @ fmt_d 6 (nat (ss mod 1000000)) else [])
              else []))"

text \<open>
  \<^verbatim>\<open>dt.isoformat(sep=sep, timespec="seconds")\<close>.  The offsets of a \<^verbatim>\<open>timezone\<close> and of
  the time zone database are within a day of UTC, so the range check of
  \<^verbatim>\<open>utcoffset()\<close> is not a branch here.
\<close>

definition isoformat :: "char \<Rightarrow> datetime \<Rightarrow> string" where
  "isoformat sep dt =
     fmt_d 4 (year dt) @ ''-'' @ fmt_d 2 (month dt) @ ''-'' @ fmt_d 2 (day dt) @ [sep] @
     fmt_d 2 (hour dt) @ '':'' @ fmt_d 2 (minute dt) @ '':'' @ fmt_d 2 (second dt) @
     format_offset (tzinfo dt)"

subsection \<open>The program\<close>

definition try_iso_to_dt_utc :: "string option \<Rightarrow> datetime option" where
  "try_iso_to_dt_utc iso_str =
     (case iso_str of
        None \<Rightarrow> None
      | Some str \<Rightarrow>
          if str = [] then None
          else let s = strip str;
                   s = (if endswith_Z s then butlast s @ ''+00:00'' else s)
               in case fromisoformat s of Inl e \<Rightarrow> None | Inr dt \<Rightarrow> Some dt)"

definition in_window_local :: "datetime \<Rightarrow> bool" where
  "in_window_local dt_local =
     (let h = hour dt_local in WINDOW_START_HOUR \<le> h \<and> h < WINDOW_END_HOUR)"

text \<open>The dictionary that \<^verbatim>\<open>iter_relevant_events\<close> yields.\<close>

record row =
  source :: string
  event_id :: string
  label :: string
  provider :: string
  computer :: string
  utc_time :: string
  local_time :: string
  user :: string

text \<open>
  Line 84, the branch taken when the first parse gave None or a naive datetime:
  \<^verbatim>\<open>system_time_utc.replace\<close> on None is an AttributeError, and \<^verbatim>\<open>fromisoformat\<close>
  is outside any \<^verbatim>\<open>try\<close>.
\<close>

definition reparse :: "string option \<Rightarrow> error + datetime" where
  "reparse system_time_utc =
     (case system_time_utc of
        None \<Rightarrow> Inl AttributeError
      | Some str \<Rightarrow> fromisoformat (replace_Z str))"

text \<open>Lines 80 to 85 of the loop body: \<^verbatim>\<open>dt_utc\<close> and \<^verbatim>\<open>dt_local\<close>.\<close>

definition event_times ::
  "(datetime \<Rightarrow> int) \<Rightarrow> (int \<Rightarrow> int) \<Rightarrow> element \<Rightarrow> error + (datetime \<times> datetime)" where
  "event_times sys tz system =
     (let system_time_utc = get_attr system ''TimeCreated'' ''SystemTime'' in
      case (case try_iso_to_dt_utc system_time_utc of
              None \<Rightarrow> reparse system_time_utc
            | Some dt \<Rightarrow> if tzinfo dt = None then reparse system_time_utc else Inr dt) of
        Inl e \<Rightarrow> Inl e
      | Inr dt_utc \<Rightarrow>
          (case astimezone sys tz dt_utc of
             Inl e \<Rightarrow> Inl e
           | Inr dt_local \<Rightarrow> Inr (dt_utc, dt_local)))"

text \<open>
  One pass through the loop body for the element \<open>ev\<close>: \<open>Inr None\<close> is
  \<^verbatim>\<open>continue\<close>, \<open>Inr (Some r)\<close> is \<^verbatim>\<open>yield r\<close>, \<open>Inl e\<close> an exception that leaves the
  generator.
\<close>

definition event_row ::
  "(datetime \<Rightarrow> int) \<Rightarrow> (int \<Rightarrow> int) \<Rightarrow> element \<Rightarrow> error + row option" where
  "event_row sys tz ev =
     (case find_child ev ''System'' of
        None \<Rightarrow> Inr None
      | Some system \<Rightarrow>
          (case get_text system ''EventID'' of
             None \<Rightarrow> Inr None
           | Some eid \<Rightarrow>
               if ALL_EVENTS eid = None then Inr None
               else
                 (case event_times sys tz system of
                    Inl e \<Rightarrow> Inl e
                  | Inr (dt_utc, dt_local) \<Rightarrow>
                      if \<not> in_window_local dt_local then Inr None
                      else
                        let provider = get_attr system ''Provider'' ''Name'';
                            computer = get_text system ''Computer''
                        in case ALL_EVENTS eid of
                             None \<Rightarrow> Inl KeyError
                           | Some lbl \<Rightarrow>
                               let usr = (if SECURITY_EVENTS eid \<noteq> None
                                          then extract_username ev else None)
                               in Inr (Some
                                    \<lparr>source = (if SECURITY_EVENTS eid \<noteq> None
                                               then ''security'' else ''system''),
                                     event_id = eid,
                                     label = (if eid = ''4634'' then ''Logoff'' else lbl),
                                     provider = or_dash provider,
                                     computer = or_dash computer,
                                     utc_time = isoformat (CHR ''T'') dt_utc,
                                     local_time = isoformat (CHR '' '') dt_local,
                                     user = or_dash usr\<rparr>))))"

text \<open>\<^verbatim>\<open>list(...)\<close> of the generator: the rows in order, or the first exception.\<close>

fun collect_rows :: "(element \<Rightarrow> error + row option) \<Rightarrow> element list \<Rightarrow> error + row list" where
  "collect_rows body [] = Inr []"
| "collect_rows body (ev # evs) =
     (case body ev of
        Inl e \<Rightarrow> Inl e
      | Inr r \<Rightarrow>
          (case collect_rows body evs of
             Inl e \<Rightarrow> Inl e
           | Inr rows \<Rightarrow> Inr (case r of None \<Rightarrow> rows | Some x \<Rightarrow> x # rows)))"

definition iter_relevant_events ::
  "(datetime \<Rightarrow> int) \<Rightarrow> (int \<Rightarrow> int) \<Rightarrow> element \<Rightarrow> error + row list" where
  "iter_relevant_events sys tz root =
     collect_rows (event_row sys tz) (findall_descendants root ''Event'')"

text \<open>
  \<^verbatim>\<open>main\<close> from the parsed root on.  Lines 111 and 112 give the sorted rows
  (\<^verbatim>\<open>list.sort\<close> is stable, as \<^const>\<open>sort_key\<close> is; strings compare by code point);
  the console lines and the CSV records are rendered from them.  The final
  \<^verbatim>\<open>Saved:\<close> line and the quoting of the \<^verbatim>\<open>csv\<close> writer are left out.
\<close>

definition main_rows :: "(datetime \<Rightarrow> int) \<Rightarrow> (int \<Rightarrow> int) \<Rightarrow> element \<Rightarrow> error + row list" where
  "main_rows sys tz root =
     (case iter_relevant_events sys tz root of
        Inl e \<Rightarrow> Inl e
      | Inr rows \<Rightarrow> Inr (sort_key local_time rows))"

definition console_line :: "row \<Rightarrow> string" where
  "console_line r =
     local_time r @ '' ['' @ source r @ ''] EventID='' @ event_id r @ '' '' @ label r @
     '' | Provider='' @ provider r @ '' | Computer='' @ computer r @ '' | User='' @ user r"

definition csv_header :: "string list" where
  "csv_header = [''source'', ''event_id'', ''label'', ''local_time'', ''utc_time'',
                 ''provider'', ''computer'', ''user'']"

definition csv_record :: "row \<Rightarrow> string list" where
  "csv_record r = [source r, event_id r, label r, local_time r, utc_time r,
                   provider r, computer r, user r]"

text \<open>What a run writes: the console lines and the records of the CSV file.\<close>

definition main ::
  "(datetime \<Rightarrow> int) \<Rightarrow> (int \<Rightarrow> int) \<Rightarrow> element \<Rightarrow> error + (string list \<times> string list list)" where
  "main sys tz root =
     (case main_rows sys tz root of
        Inl e \<Rightarrow> Inl e
      | Inr rows \<Rightarrow> Inr (map console_line rows, csv_header # map csv_record rows))"

subsection \<open>Reading the specification\<close>

text \<open>
  The hour of day of an emitted row, read back from its \<^verbatim>\<open>local_time\<close> string
  \<^verbatim>\<open>YYYY-MM-DD HH:MM:SS...\<close>: the two digits after the date and the separator.
\<close>

definition local_hour :: "string \<Rightarrow> nat" where
  "local_hour s = (of_char (s ! 11) - 48) * 10 + (of_char (s ! 12) - 48)"

text \<open>
  The words of the specification for the user of a security event: the record's data
  children are the \<^verbatim>\<open>Data\<close> children of its \<^verbatim>\<open>EventData\<close> element, and a
  qualifying field is one named TargetUserName or SubjectUserName with non-empty text.
\<close>

definition spec_data_children :: "element \<Rightarrow> element list" where
  "spec_data_children ev =
     (case find_child ev ''EventData'' of None \<Rightarrow> [] | Some ed \<Rightarrow> findall_children ed ''Data'')"


subsection \<open>Sample documents\<close>

text \<open>
  An event record with an identifier, an optional \<^verbatim>\<open>SystemTime\<close> attribute and data
  fields, but neither \<^verbatim>\<open>Provider\<close> nor \<^verbatim>\<open>Computer\<close>; and a root holding records.
\<close>

definition data_field :: "string \<Rightarrow> string \<Rightarrow> element" where
  "data_field name txt = Element ''Data'' [(''Name'', name)] (Some txt) []"

definition sample_event :: "string \<Rightarrow> string option \<Rightarrow> element list \<Rightarrow> element" where
  "sample_event eid ts flds =
     Element ''Event'' [] None
       [Element ''System'' [] None
          [Element ''EventID'' [] (Some eid) [],
           Element ''TimeCreated'' (case ts of None \<Rightarrow> [] | Some t \<Rightarrow> [(''SystemTime'', t)]) None []],
        Element ''EventData'' [] None flds]"

definition sample_root :: "element list \<Rightarrow> element" where
  "sample_root evs = Element ''Events'' [] None evs"

text \<open>A machine whose own zone is UTC, and one in New York during daylight time.\<close>

definition sys_utc :: "datetime \<Rightarrow> int" where
  "sys_utc dt = 0"

definition sys_new_york_summer :: "datetime \<Rightarrow> int" where
  "sys_new_york_summer dt = - 14400"

section \<open>Properties\<close>

subsection \<open>The generator, the loop body and the tables\<close>

lemma collect_rows_source:
  "collect_rows body evs = Inr rows \<Longrightarrow> r \<in> set rows \<Longrightarrow> \<exists>ev\<in>set evs. body ev = Inr (Some r)"
proof (induction evs arbitrary: rows)
  case Nil
  then show ?case by simp
next
  case (Cons ev evs)
  from Cons.prems(1) obtain x rest where x: "body ev = Inr x" and rest: "collect_rows body evs = Inr rest"
    and rows: "rows = (case x of None \<Rightarrow> rest | Some y \<Rightarrow> y # rest)"
    by (auto split: sum.splits)
  show ?case
  proof (cases "r \<in> set rest")
    case True
    with Cons.IH [OF rest] show ?thesis by auto
  next
    case False
    with rows Cons.prems(2) have "x = Some r" by (cases x) auto
    with x show ?thesis by simp
  qed
qed

lemma collect_rows_emitted:
  "collect_rows body evs = Inr rows \<Longrightarrow> ev \<in> set evs \<Longrightarrow> body ev = Inr (Some r) \<Longrightarrow> r \<in> set rows"
proof (induction evs arbitrary: rows)
  case Nil
  then show ?case by simp
next
  case (Cons a evs)
  from Cons.prems(1) obtain x rest where x: "body a = Inr x" and rest: "collect_rows body evs = Inr rest"
    and rows: "rows = (case x of None \<Rightarrow> rest | Some y \<Rightarrow> y # rest)"
    by (auto split: sum.splits)
  show ?case
  proof (cases "ev = a")
    case True
    with x Cons.prems(3) rows show ?thesis by simp
  next
    case False
    with Cons.prems(2) have "ev \<in> set evs" by simp
    from Cons.IH [OF rest this Cons.prems(3)] rows show ?thesis by (cases x) auto
  qed
qed

lemma collect_rows_error:
  "ev \<in> set evs \<Longrightarrow> body ev = Inl e \<Longrightarrow> \<exists>e'. collect_rows body evs = Inl e'"
  by (induction evs) (auto split: sum.splits)

lemma main_rows_sorted_iter:
  "main_rows sys tz root = Inr rows \<Longrightarrow>
   \<exists>rows0. iter_relevant_events sys tz root = Inr rows0 \<and> rows = sort_key local_time rows0"
  by (auto simp: main_rows_def split: sum.splits)

lemma main_rows_source:
  assumes "main_rows sys tz root = Inr rows" and "r \<in> set rows"
  shows "\<exists>ev\<in>set (findall_descendants root ''Event''). event_row sys tz ev = Inr (Some r)"
proof -
  from main_rows_sorted_iter [OF assms(1)] obtain rows0
    where it: "iter_relevant_events sys tz root = Inr rows0" and s: "rows = sort_key local_time rows0"
    by blast
  from s assms(2) have "r \<in> set rows0" by simp
  with it show ?thesis
    unfolding iter_relevant_events_def by (rule collect_rows_source)
qed

lemma event_row_Some:
  assumes "event_row sys tz ev = Inr (Some r)"
  shows "\<exists>system eid lbl dt_utc dt_local.
           find_child ev ''System'' = Some system \<and>
           get_text system ''EventID'' = Some eid \<and>
           ALL_EVENTS eid = Some lbl \<and>
           event_times sys tz system = Inr (dt_utc, dt_local) \<and>
           in_window_local dt_local \<and>
           r = \<lparr>source = (if SECURITY_EVENTS eid \<noteq> None then ''security'' else ''system''),
                event_id = eid,
                label = (if eid = ''4634'' then ''Logoff'' else lbl),
                provider = or_dash (get_attr system ''Provider'' ''Name''),
                computer = or_dash (get_text system ''Computer''),
                utc_time = isoformat (CHR ''T'') dt_utc,
                local_time = isoformat (CHR '' '') dt_local,
                user = or_dash (if SECURITY_EVENTS eid \<noteq> None then extract_username ev else None)\<rparr>"
  using assms unfolding event_row_def
  by (auto simp: Let_def split: option.splits sum.splits if_splits prod.splits)

lemma event_row_emits:
  assumes "find_child ev ''System'' = Some system"
    and "get_text system ''EventID'' = Some eid"
    and "ALL_EVENTS eid = Some lbl"
    and "event_times sys tz system = Inr (dt_utc, dt_local)"
    and "in_window_local dt_local"
  shows "event_row sys tz ev = Inr (Some
           \<lparr>source = (if SECURITY_EVENTS eid \<noteq> None then ''security'' else ''system''),
            event_id = eid,
            label = (if eid = ''4634'' then ''Logoff'' else lbl),
            provider = or_dash (get_attr system ''Provider'' ''Name''),
            computer = or_dash (get_text system ''Computer''),
            utc_time = isoformat (CHR ''T'') dt_utc,
            local_time = isoformat (CHR '' '') dt_local,
            user = or_dash (if SECURITY_EVENTS eid \<noteq> None then extract_username ev else None)\<rparr>)"
  using assms unfolding event_row_def by (simp add: Let_def)

lemma event_row_outside_window:
  assumes "find_child ev ''System'' = Some system"
    and "event_times sys tz system = Inr (dt_utc, dt_local)"
    and "\<not> in_window_local dt_local"
  shows "event_row sys tz ev = Inr None"
  using assms unfolding event_row_def by (simp add: Let_def split: option.splits)

lemma event_row_times_error:
  assumes "find_child ev ''System'' = Some system"
    and "get_text system ''EventID'' = Some eid"
    and "ALL_EVENTS eid \<noteq> None"
    and "event_times sys tz system = Inl e"
  shows "event_row sys tz ev = Inl e"
  using assms unfolding event_row_def by (simp add: Let_def)

lemma main_error:
  assumes "ev \<in> set (findall_descendants root ''Event'')" and "event_row sys tz ev = Inl e"
  shows "\<exists>e'. iter_relevant_events sys tz root = Inl e'" and "\<exists>e'. main_rows sys tz root = Inl e'"
    and "\<exists>e'. main sys tz root = Inl e'"
proof -
  from collect_rows_error [of ev "findall_descendants root ''Event''" "event_row sys tz" e] assms
  show 1: "\<exists>e'. iter_relevant_events sys tz root = Inl e'"
    by (simp add: iter_relevant_events_def)
  then show 2: "\<exists>e'. main_rows sys tz root = Inl e'" by (auto simp: main_rows_def)
  then show "\<exists>e'. main sys tz root = Inl e'" by (auto simp: main_def)
qed

lemma SYSTEM_EVENTS_keys:
  "SYSTEM_EVENTS k \<noteq> None \<longleftrightarrow> k \<in> {''12'', ''13'', ''6005'', ''6006'', ''6008''}"
  unfolding SYSTEM_EVENTS_def by simp

lemma SECURITY_EVENTS_keys:
  "SECURITY_EVENTS k \<noteq> None \<longleftrightarrow>
     k \<in> {''4624'', ''4625'', ''4634'', ''4647'', ''4672'', ''4800'', ''4801''}"
  unfolding SECURITY_EVENTS_def by simp

lemma ALL_EVENTS_keys:
  "ALL_EVENTS k \<noteq> None \<longleftrightarrow> SYSTEM_EVENTS k \<noteq> None \<or> SECURITY_EVENTS k \<noteq> None"
  unfolding ALL_EVENTS_def by (auto simp: map_add_def split: option.splits)

lemma tables_disjoint: "SYSTEM_EVENTS k \<noteq> None \<Longrightarrow> SECURITY_EVENTS k = None"
proof -
  assume "SYSTEM_EVENTS k \<noteq> None"
  then have "k \<in> {''12'', ''13'', ''6005'', ''6006'', ''6008''}" by (simp only: SYSTEM_EVENTS_keys)
  then have "k \<notin> {''4624'', ''4625'', ''4634'', ''4647'', ''4672'', ''4800'', ''4801''}" by auto
  then show ?thesis using SECURITY_EVENTS_keys [of k] by blast
qed

subsection \<open>Timestamps\<close>

lemma event_times_absent:
  "get_attr system ''TimeCreated'' ''SystemTime'' = None \<Longrightarrow>
   event_times sys tz system = Inl AttributeError"
  by (simp add: event_times_def try_iso_to_dt_utc_def reparse_def)

lemma event_times_unparsable:
  "get_attr system ''TimeCreated'' ''SystemTime'' = Some ts \<Longrightarrow>
   try_iso_to_dt_utc (Some ts) = None \<Longrightarrow> fromisoformat (replace_Z ts) = Inl e \<Longrightarrow>
   event_times sys tz system = Inl e"
  by (simp add: event_times_def reparse_def)

lemma event_times_aware:
  assumes "try_iso_to_dt_utc (get_attr system ''TimeCreated'' ''SystemTime'') = Some dt"
    and "tzinfo dt = Some off"
    and "event_times sys tz system = Inr (dt_utc, dt_local)"
  shows "dt_utc = dt"
  using assms by (auto simp: event_times_def Let_def split: sum.splits)

subsection \<open>The hour in the formatted local time\<close>

lemma days_in_month_le: "1 \<le> m \<Longrightarrow> m \<le> 12 \<Longrightarrow> days_in_month y m \<le> 31"
proof -
  assume "1 \<le> m" and "m \<le> 12"
  then have "m = 1 \<or> m = 2 \<or> m = 3 \<or> m = 4 \<or> m = 5 \<or> m = 6 \<or> m = 7 \<or> m = 8 \<or> m = 9 \<or>
             m = 10 \<or> m = 11 \<or> m = 12" by arith
  then show ?thesis by (auto simp: days_in_month_def DAYS_IN_MONTH_def)
qed

lemma datetime_new_fields:
  assumes "datetime_new y m d hh mm ss us tz = Inr dt"
  shows "year dt < 10000 \<and> month dt < 100 \<and> day dt < 100 \<and> hour dt < 24"
proof -
  from assms have ok: "1 \<le> y" "y \<le> 9999" "1 \<le> m" "m \<le> 12" "1 \<le> d" "d \<le> days_in_month y m"
      "0 \<le> hh" "hh \<le> 23"
    and dt: "year dt = nat y" "month dt = nat m" "day dt = nat d" "hour dt = nat hh"
    by (auto simp: datetime_new_def MINYEAR_def MAXYEAR_def split: if_splits)
  from days_in_month_le [OF ok(3) ok(4), of y] ok(6) have "d \<le> 31" by simp
  with ok(2) ok(4) ok(8) show ?thesis unfolding dt by arith
qed

lemma datetime_add_fields:
  assumes "datetime_add dt td = Inr dt'"
  shows "year dt' < 10000 \<and> month dt' < 100 \<and> day dt' < 100 \<and> hour dt' < 24"
proof -
  from assms obtain y m d hh mm ss us tz where "datetime_new y m d hh mm ss us tz = Inr dt'"
    unfolding datetime_add_def Let_def by (auto split: if_splits prod.splits)
  then show ?thesis by (rule datetime_new_fields)
qed

lemma astimezone_fields:
  assumes "astimezone sys tz dt = Inr loc"
  shows "year loc < 10000 \<and> month loc < 100 \<and> day loc < 100 \<and> hour loc < 24"
proof -
  from assms obtain utc l off where "datetime_add utc off = Inr l" and "loc = l\<lparr>tzinfo := Some off\<rparr>"
    by (auto simp: astimezone_def Let_def split: sum.splits)
  with datetime_add_fields [of utc off l] show ?thesis by simp
qed

lemma event_times_local_fields:
  assumes "event_times sys tz system = Inr (dt_utc, dt_local)"
  shows "year dt_local < 10000 \<and> month dt_local < 100 \<and> day dt_local < 100 \<and> hour dt_local < 24"
proof -
  from assms have "astimezone sys tz dt_utc = Inr dt_local"
    by (auto simp: event_times_def Let_def split: sum.splits)
  then show ?thesis by (rule astimezone_fields)
qed

lemma char_of_48: "char_of (48 :: nat) = CHR ''0''"
  by code_simp

lemma decimal_digit: "n < 10 \<Longrightarrow> decimal n = [char_of (48 + n)]"
  by (subst decimal.simps) simp

lemma decimal_two: "10 \<le> n \<Longrightarrow> n < 100 \<Longrightarrow> decimal n = [char_of (48 + n div 10), char_of (48 + n mod 10)]"
  by (subst decimal.simps) (simp add: decimal_digit)

lemma length_decimal: "0 < k \<Longrightarrow> n < 10 ^ k \<Longrightarrow> length (decimal n) \<le> k \<and> 0 < length (decimal n)"
proof (induction k arbitrary: n)
  case 0
  then show ?case by simp
next
  case (Suc k)
  show ?case
  proof (cases "n < 10")
    case True
    then show ?thesis by (simp add: decimal_digit)
  next
    case False
    then have k: "0 < k" using Suc.prems(2) by (cases k) auto
    from Suc.prems(2) have "n div 10 < 10 ^ k" by (simp add: less_mult_imp_div_less mult.commute)
    from Suc.IH [OF k this] False show ?thesis by (subst (1 2) decimal.simps) simp
  qed
qed

lemma length_fmt_d: "0 < w \<Longrightarrow> n < 10 ^ w \<Longrightarrow> length (fmt_d w n) = w"
  using length_decimal [of w n] by (simp add: fmt_d_def)

lemma fmt_d_two: "n < 100 \<Longrightarrow> fmt_d 2 n = [char_of (48 + n div 10), char_of (48 + n mod 10)]"
proof (cases "n < 10")
  case True
  then show ?thesis by (simp add: fmt_d_def decimal_digit char_of_48)
next
  case False
  assume "n < 100"
  with False show ?thesis by (simp add: fmt_d_def decimal_two)
qed

lemma local_hour_isoformat:
  assumes "year dt < 10000" and "month dt < 100" and "day dt < 100" and "hour dt < 24"
  shows "local_hour (isoformat sep dt) = hour dt"
proof -
  define a where "a = fmt_d 4 (year dt) @ ''-'' @ fmt_d 2 (month dt) @ ''-'' @ fmt_d 2 (day dt) @ [sep]"
  define b where "b = '':'' @ fmt_d 2 (minute dt) @ '':'' @ fmt_d 2 (second dt) @ format_offset (tzinfo dt)"
  define x where "x = char_of (48 + hour dt div 10)"
  define y where "y = char_of (48 + hour dt mod 10)"
  have la: "length a = 11"
    unfolding a_def
    using assms length_fmt_d [of 4 "year dt"] length_fmt_d [of 2 "month dt"]
      length_fmt_d [of 2 "day dt"] by simp
  from assms(4) have h: "fmt_d 2 (hour dt) = [x, y]"
    by (simp add: fmt_d_two x_def y_def)
  have iso: "isoformat sep dt = a @ x # y # b"
    by (simp add: isoformat_def a_def b_def h)
  have n11: "isoformat sep dt ! 11 = x"
    unfolding iso using nth_append_length [of a x "y # b"] la by simp
  have "isoformat sep dt ! (length a + 1) = (x # y # b) ! 1"
    unfolding iso by (rule nth_append_length_plus)
  with la have n12: "isoformat sep dt ! 12 = y" by simp
  from assms(4) have "hour dt div 10 < 10" by simp
  then have d1: "of_char x = 48 + hour dt div 10" by (simp add: x_def)
  have d2: "of_char y = 48 + hour dt mod 10" by (simp add: y_def)
  show ?thesis unfolding local_hour_def n11 n12 d1 d2 by simp
qed

subsection \<open>The user of a record\<close>



subsection \<open>Evaluated sample runs\<close>

lemma sample_main_rows_alice:
  "main_rows sys LOCAL_TZ
     (sample_root [sample_event ''4624'' (Some ''2025-08-21T13:05:00Z'')
                     [data_field ''TargetUserName'' ''alice'']]) =
   Inr [\<lparr>source = ''security'', event_id = ''4624'', label = ''Logon Success'',
         provider = ''-'', computer = ''-'', utc_time = ''2025-08-21T13:05:00+00:00'',
         local_time = ''2025-08-21 09:05:00-04:00'', user = ''alice''\<rparr>]"
  by code_simp

lemma sample_run_9999_6006: "main_rows sys_utc LOCAL_TZ
        (sample_root [sample_event ''9999'' (Some ''2025-08-21T13:05:00Z'') [],
                      sample_event ''6006'' (Some ''2025-08-21T13:05:00Z'') [data_field ''TargetUserName'' ''alice'']]) =
      Inr [\<lparr>source = ''system'', event_id = ''6006'', label = ''EventLog Stopped (Shutdown)'',
            provider = ''-'', computer = ''-'', utc_time = ''2025-08-21T13:05:00+00:00'',
            local_time = ''2025-08-21 09:05:00-04:00'', user = ''-''\<rparr>]"
  by code_simp

lemma sample_iter_three:
  "iter_relevant_events sys_utc LOCAL_TZ
     (sample_root [sample_event ''4624'' (Some ''2025-08-21T14:00:00Z'') [data_field ''TargetUserName'' ''carol''],
                   sample_event ''4634'' (Some ''2025-08-21T13:05:00Z'') [data_field ''TargetUserName'' ''alice''],
                   sample_event ''4624'' (Some ''2025-08-21T13:05:00Z'') [data_field ''TargetUserName'' ''bob'']]) =
   Inr [\<lparr>source = ''security'', event_id = ''4624'', label = ''Logon Success'',
         provider = ''-'', computer = ''-'', utc_time = ''2025-08-21T14:00:00+00:00'',
         local_time = ''2025-08-21 10:00:00-04:00'', user = ''carol''\<rparr>,
        \<lparr>source = ''security'', event_id = ''4634'', label = ''Logoff'',
         provider = ''-'', computer = ''-'', utc_time = ''2025-08-21T13:05:00+00:00'',
         local_time = ''2025-08-21 09:05:00-04:00'', user = ''alice''\<rparr>,
        \<lparr>source = ''security'', event_id = ''4624'', label = ''Logon Success'',
         provider = ''-'', computer = ''-'', utc_time = ''2025-08-21T13:05:00+00:00'',
         local_time = ''2025-08-21 09:05:00-04:00'', user = ''bob''\<rparr>]"
  by code_simp

lemma sample_main_rows_three:
  "main_rows sys_utc LOCAL_TZ
     (sample_root [sample_event ''4624'' (Some ''2025-08-21T14:00:00Z'') [data_field ''TargetUserName'' ''carol''],
                   sample_event ''4634'' (Some ''2025-08-21T13:05:00Z'') [data_field ''TargetUserName'' ''alice''],
                   sample_event ''4624'' (Some ''2025-08-21T13:05:00Z'') [data_field ''TargetUserName'' ''bob'']]) =
   Inr [\<lparr>source = ''security'', event_id = ''4634'', label = ''Logoff'',
         provider = ''-'', computer = ''-'', utc_time = ''2025-08-21T13:05:00+00:00'',
         local_time = ''2025-08-21 09:05:00-04:00'', user = ''alice''\<rparr>,
        \<lparr>source = ''security'', event_id = ''4624'', label = ''Logon Success'',
         provider = ''-'', computer = ''-'', utc_time = ''2025-08-21T13:05:00+00:00'',
         local_time = ''2025-08-21 09:05:00-04:00'', user = ''bob''\<rparr>,
        \<lparr>source = ''security'', event_id = ''4624'', label = ''Logon Success'',
         provider = ''-'', computer = ''-'', utc_time = ''2025-08-21T14:00:00+00:00'',
         local_time = ''2025-08-21 10:00:00-04:00'', user = ''carol''\<rparr>]"
  by code_simp

lemma sample_main_rows_window:
  "main_rows sys_utc LOCAL_TZ
     (sample_root [sample_event ''6006'' (Some ''2025-08-21T22:00:00Z'') [],
                   sample_event ''6005'' (Some ''2025-08-21T21:59:59Z'') [],
                   sample_event ''12'' (Some ''2025-08-21T12:59:59Z'') [],
                   sample_event ''13'' (Some ''2025-08-21T13:00:00Z'') []]) =
   Inr [\<lparr>source = ''system'', event_id = ''13'', label = ''SystemShutdown (Kernel-General)'',
         provider = ''-'', computer = ''-'', utc_time = ''2025-08-21T13:00:00+00:00'',
         local_time = ''2025-08-21 09:00:00-04:00'', user = ''-''\<rparr>,
        \<lparr>source = ''system'', event_id = ''6005'', label = ''EventLog Started (Boot)'',
         provider = ''-'', computer = ''-'', utc_time = ''2025-08-21T21:59:59+00:00'',
         local_time = ''2025-08-21 17:59:59-04:00'', user = ''-''\<rparr>]"
  by code_simp

lemma sample_row_plus5:
  "event_row sys_utc LOCAL_TZ (sample_event ''4624'' (Some ''2025-08-21T18:05:00+05:00'') []) =
   Inr (Some \<lparr>source = ''security'', event_id = ''4624'', label = ''Logon Success'',
         provider = ''-'', computer = ''-'', utc_time = ''2025-08-21T18:05:00+05:00'',
         local_time = ''2025-08-21 09:05:00-04:00'', user = ''-''\<rparr>)"
  by code_simp


subsection \<open>Timestamps without a time zone\<close>

text \<open>
  C1.  A timestamp without time zone information is not treated as UTC.  The first parse
  gives a naive datetime, the second parse of line 84 gives the same naive datetime
  (there is no Z to replace), and \<^verbatim>\<open>astimezone\<close> reads a naive datetime in the zone of
  the machine.  For \<^verbatim>\<open>2025-08-21T13:05:00\<close> the \<^verbatim>\<open>utc_time\<close> column carries no offset,
  and the local time is 13:05 on a machine in New York but 09:05 on a machine on UTC.
\<close>

theorem C1_naive_timestamp_follows_machine_zone:
  "main_rows sys_new_york_summer LOCAL_TZ
     (sample_root [sample_event ''4624'' (Some ''2025-08-21T13:05:00'') []]) =
   Inr [\<lparr>source = ''security'', event_id = ''4624'', label = ''Logon Success'',
         provider = ''-'', computer = ''-'', utc_time = ''2025-08-21T13:05:00'',
         local_time = ''2025-08-21 13:05:00-04:00'', user = ''-''\<rparr>] \<and>
   main_rows sys_utc LOCAL_TZ
     (sample_root [sample_event ''4624'' (Some ''2025-08-21T13:05:00'') []]) =
   Inr [\<lparr>source = ''security'', event_id = ''4624'', label = ''Logon Success'',
         provider = ''-'', computer = ''-'', utc_time = ''2025-08-21T13:05:00'',
         local_time = ''2025-08-21 09:05:00-04:00'', user = ''-''\<rparr>]"
  by code_simp

subsection \<open>The single-record scenario\<close>

text \<open>
  C2 (as amended).  For an input with the single event record with identifier 4624,
  \<^verbatim>\<open>SystemTime\<close> \<^verbatim>\<open>2025-08-21T13:05:00Z\<close> and a TargetUserName field with text alice,
  the run emits exactly one row, with source security, event\_id 4624, label
  Logon Success, local\_time \<^verbatim>\<open>2025-08-21 09:05:00-04:00\<close> and user alice, on any machine.
  The local time is rendered with its UTC offset, so the row does not have the
  local\_time \<^verbatim>\<open>2025-08-21 09:05:00\<close>.
\<close>

theorem C2_scenario_row:
  "main_rows sys LOCAL_TZ
     (sample_root [sample_event ''4624'' (Some ''2025-08-21T13:05:00Z'')
                     [data_field ''TargetUserName'' ''alice'']]) =
   Inr [\<lparr>source = ''security'', event_id = ''4624'', label = ''Logon Success'',
         provider = ''-'', computer = ''-'', utc_time = ''2025-08-21T13:05:00+00:00'',
         local_time = ''2025-08-21 09:05:00-04:00'', user = ''alice''\<rparr>] \<and>
   main sys LOCAL_TZ
     (sample_root [sample_event ''4624'' (Some ''2025-08-21T13:05:00Z'')
                     [data_field ''TargetUserName'' ''alice'']]) =
   Inr ([''2025-08-21 09:05:00-04:00 [security] EventID=4624 Logon Success | Provider=- | Computer=- | User=alice''],
        [[''source'', ''event_id'', ''label'', ''local_time'', ''utc_time'', ''provider'',
          ''computer'', ''user''],
         [''security'', ''4624'', ''Logon Success'', ''2025-08-21 09:05:00-04:00'',
          ''2025-08-21T13:05:00+00:00'', ''-'', ''-'', ''alice'']])"
  using sample_main_rows_alice [of sys]
  by (simp add: main_def console_line_def csv_header_def csv_record_def)

theorem C2_scenario_row_witness:
  "main_rows sys_utc LOCAL_TZ
     (sample_root [sample_event ''4624'' (Some ''2025-08-21T13:05:00Z'')
                     [data_field ''TargetUserName'' ''alice'']]) =
   Inr [\<lparr>source = ''security'', event_id = ''4624'', label = ''Logon Success'',
         provider = ''-'', computer = ''-'', utc_time = ''2025-08-21T13:05:00+00:00'',
         local_time = ''2025-08-21 09:05:00-04:00'', user = ''alice''\<rparr>]"
  using C2_scenario_row [of sys_utc] by blast

theorem C2_scenario_row_counterexample:
  "\<not> (\<exists>r. main_rows sys_utc LOCAL_TZ
            (sample_root [sample_event ''4624'' (Some ''2025-08-21T13:05:00Z'')
                            [data_field ''TargetUserName'' ''alice'']]) = Inr [r] \<and>
          source r = ''security'' \<and> event_id r = ''4624'' \<and> label r = ''Logon Success'' \<and>
          local_time r = ''2025-08-21 09:05:00'' \<and> user r = ''alice'')"
  using sample_main_rows_alice [of sys_utc] by auto

subsection \<open>Sorting\<close>

text \<open>
  C3.  The rows a run emits, on the console and in the file alike, are those of the
  generator sorted by their \<^verbatim>\<open>local_time\<close> string: the strings are in non-decreasing
  order, and the rows with any one \<^verbatim>\<open>local_time\<close> string keep the order in which the
  generator yielded them (document order).  The console line of a row begins with that
  string and the CSV record holds it in its fourth column.
\<close>

theorem C3_sorted_stable:
  assumes "iter_relevant_events sys tz root = Inr rows0"
    and "main_rows sys tz root = Inr rows"
  shows "sorted (map local_time rows) \<and>
         (\<forall>k. filter (\<lambda>r. local_time r = k) rows = filter (\<lambda>r. local_time r = k) rows0) \<and>
         main sys tz root = Inr (map console_line rows, csv_header # map csv_record rows) \<and>
         (\<forall>r. csv_record r ! 3 = local_time r \<and>
              take (length (local_time r)) (console_line r) = local_time r)"
proof -
  from assms have rows: "rows = sort_key local_time rows0" by (simp add: main_rows_def)
  have "sorted (map local_time rows)" unfolding rows by (rule sorted_sort_key)
  moreover have "\<forall>k. filter (\<lambda>r. local_time r = k) rows = filter (\<lambda>r. local_time r = k) rows0"
    unfolding rows by (simp add: sort_key_stable)
  moreover have "main sys tz root = Inr (map console_line rows, csv_header # map csv_record rows)"
    using assms(2) by (simp add: main_def)
  moreover have "\<forall>r. csv_record r ! 3 = local_time r \<and>
              take (length (local_time r)) (console_line r) = local_time r"
    by (simp add: csv_record_def console_line_def)
  ultimately show ?thesis by blast
qed

theorem C3_sorted_stable_witness:
  "sorted [''2025-08-21 09:05:00-04:00'', ''2025-08-21 09:05:00-04:00'', ''2025-08-21 10:00:00-04:00''] \<and>
   (\<exists>ra rb rc.
      iter_relevant_events sys_utc LOCAL_TZ
        (sample_root [sample_event ''4624'' (Some ''2025-08-21T14:00:00Z'') [data_field ''TargetUserName'' ''carol''],
                      sample_event ''4634'' (Some ''2025-08-21T13:05:00Z'') [data_field ''TargetUserName'' ''alice''],
                      sample_event ''4624'' (Some ''2025-08-21T13:05:00Z'') [data_field ''TargetUserName'' ''bob'']])
        = Inr [rc, ra, rb] \<and>
      main_rows sys_utc LOCAL_TZ
        (sample_root [sample_event ''4624'' (Some ''2025-08-21T14:00:00Z'') [data_field ''TargetUserName'' ''carol''],
                      sample_event ''4634'' (Some ''2025-08-21T13:05:00Z'') [data_field ''TargetUserName'' ''alice''],
                      sample_event ''4624'' (Some ''2025-08-21T13:05:00Z'') [data_field ''TargetUserName'' ''bob'']])
        = Inr [ra, rb, rc] \<and>
      user ra = ''alice'' \<and> user rb = ''bob'' \<and> user rc = ''carol'' \<and>
      local_time ra = local_time rb \<and>
      filter (\<lambda>r. local_time r = local_time ra) [ra, rb, rc] = [ra, rb])"
proof -
  let ?ra = "\<lparr>source = ''security'', event_id = ''4634'', label = ''Logoff'',
         provider = ''-'', computer = ''-'', utc_time = ''2025-08-21T13:05:00+00:00'',
         local_time = ''2025-08-21 09:05:00-04:00'', user = ''alice''\<rparr>"
  let ?rb = "\<lparr>source = ''security'', event_id = ''4624'', label = ''Logon Success'',
         provider = ''-'', computer = ''-'', utc_time = ''2025-08-21T13:05:00+00:00'',
         local_time = ''2025-08-21 09:05:00-04:00'', user = ''bob''\<rparr>"
  let ?rc = "\<lparr>source = ''security'', event_id = ''4624'', label = ''Logon Success'',
         provider = ''-'', computer = ''-'', utc_time = ''2025-08-21T14:00:00+00:00'',
         local_time = ''2025-08-21 10:00:00-04:00'', user = ''carol''\<rparr>"
  note c = C3_sorted_stable [OF sample_iter_three sample_main_rows_three]
  from c have s: "sorted (map local_time [?ra, ?rb, ?rc])" by blast
  from c have "filter (\<lambda>r. local_time r = local_time ?ra) [?ra, ?rb, ?rc]
                 = filter (\<lambda>r. local_time r = local_time ?ra) [?rc, ?ra, ?rb]" by blast
  then have f: "filter (\<lambda>r. local_time r = local_time ?ra) [?ra, ?rb, ?rc] = [?ra, ?rb]" by simp
  from s have s': "sorted [''2025-08-21 09:05:00-04:00'', ''2025-08-21 09:05:00-04:00'', ''2025-08-21 10:00:00-04:00'']"
    by simp
  show ?thesis
    apply (rule conjI [OF s'])
    apply (rule exI [of _ ?ra], rule exI [of _ ?rb], rule exI [of _ ?rc])
    using sample_iter_three sample_main_rows_three f by simp
qed

subsection \<open>The user of a security event\<close>



subsection \<open>The window\<close>

text \<open>
  C5.  Every row of a run has a local hour of day \<open>h\<close> with \<open>9 \<le> h < 18\<close>: the hour
  read back from the row's \<^verbatim>\<open>local_time\<close> string is the hour of the \<^verbatim>\<open>dt_local\<close> of the
  record the row comes from, and that hour is in the window.  A record whose local time
  has hour 18, 18:00:00 included, yields no row.
\<close>

theorem C5_local_hour_in_window:
  assumes "main_rows sys tz root = Inr rows"
  shows "(\<forall>r\<in>set rows.
            9 \<le> local_hour (local_time r) \<and> local_hour (local_time r) < 18 \<and>
            (\<exists>ev system dt_utc dt_local.
               ev \<in> set (findall_descendants root ''Event'') \<and>
               find_child ev ''System'' = Some system \<and>
               event_times sys tz system = Inr (dt_utc, dt_local) \<and>
               local_time r = isoformat (CHR '' '') dt_local \<and>
               hour dt_local = local_hour (local_time r))) \<and>
         (\<forall>ev system dt_utc dt_local.
            find_child ev ''System'' = Some system \<and>
            event_times sys tz system = Inr (dt_utc, dt_local) \<and>
            hour dt_local = 18 \<longrightarrow> event_row sys tz ev = Inr None)"
proof (intro conjI ballI allI impI)
  fix r
  assume "r \<in> set rows"
  with main_rows_source [OF assms] obtain ev
    where ev: "ev \<in> set (findall_descendants root ''Event'')"
      and row: "event_row sys tz ev = Inr (Some r)" by blast
  from event_row_Some [OF row] obtain system dt_utc dt_local where
    s: "find_child ev ''System'' = Some system" and
    t: "event_times sys tz system = Inr (dt_utc, dt_local)" and
    w: "in_window_local dt_local" and
    l: "local_time r = isoformat (CHR '' '') dt_local"
    by auto
  from event_times_local_fields [OF t]
  have h: "local_hour (local_time r) = hour dt_local"
    unfolding l by (intro local_hour_isoformat) simp_all
  from w have b: "9 \<le> hour dt_local \<and> hour dt_local < 18"
    by (simp add: in_window_local_def WINDOW_START_HOUR_def WINDOW_END_HOUR_def Let_def)
  from h b show "9 \<le> local_hour (local_time r)" by simp
  from h b show "local_hour (local_time r) < 18" by simp
  from ev s t l h show "\<exists>ev system dt_utc dt_local.
               ev \<in> set (findall_descendants root ''Event'') \<and>
               find_child ev ''System'' = Some system \<and>
               event_times sys tz system = Inr (dt_utc, dt_local) \<and>
               local_time r = isoformat (CHR '' '') dt_local \<and>
               hour dt_local = local_hour (local_time r)" by auto
next
  fix ev system dt_utc dt_local
  assume a: "find_child ev ''System'' = Some system \<and>
            event_times sys tz system = Inr (dt_utc, dt_local) \<and>
            hour dt_local = 18"
  then have "\<not> in_window_local dt_local"
    by (simp add: in_window_local_def WINDOW_END_HOUR_def Let_def)
  with a show "event_row sys tz ev = Inr None"
    using event_row_outside_window by blast
qed

theorem C5_local_hour_in_window_witness:
  "local_hour ''2025-08-21 09:00:00-04:00'' = 9 \<and> local_hour ''2025-08-21 17:59:59-04:00'' = 17 \<and>
   (\<exists>ra rb. main_rows sys_utc LOCAL_TZ
     (sample_root [sample_event ''6006'' (Some ''2025-08-21T22:00:00Z'') [],
                   sample_event ''6005'' (Some ''2025-08-21T21:59:59Z'') [],
                   sample_event ''12'' (Some ''2025-08-21T12:59:59Z'') [],
                   sample_event ''13'' (Some ''2025-08-21T13:00:00Z'') []]) = Inr [ra, rb] \<and>
      9 \<le> local_hour (local_time ra) \<and> local_hour (local_time rb) < 18) \<and>
   isoformat (CHR '' '') \<lparr>year = 2025, month = 8, day = 21, hour = 18, minute = 0, second = 0,
             microsecond = 0, tzinfo = Some (- 14400000000)\<rparr> = ''2025-08-21 18:00:00-04:00'' \<and>
   event_row sys_utc LOCAL_TZ (sample_event ''6006'' (Some ''2025-08-21T22:00:00Z'') []) = Inr None"
proof -
  let ?ev = "sample_event ''6006'' (Some ''2025-08-21T22:00:00Z'') []"
  let ?sys = "Element ''System'' [] None
                 [Element ''EventID'' [] (Some ''6006'') [],
                  Element ''TimeCreated'' [(''SystemTime'', ''2025-08-21T22:00:00Z'')] None []]"
  let ?u = "\<lparr>year = 2025, month = 8, day = 21, hour = 22, minute = 0, second = 0,
             microsecond = 0, tzinfo = Some 0\<rparr>"
  let ?l = "\<lparr>year = 2025, month = 8, day = 21, hour = 18, minute = 0, second = 0,
             microsecond = 0, tzinfo = Some (- 14400000000)\<rparr>"
  let ?ra = "\<lparr>source = ''system'', event_id = ''13'', label = ''SystemShutdown (Kernel-General)'',
         provider = ''-'', computer = ''-'', utc_time = ''2025-08-21T13:00:00+00:00'',
         local_time = ''2025-08-21 09:00:00-04:00'', user = ''-''\<rparr>"
  let ?rb = "\<lparr>source = ''system'', event_id = ''6005'', label = ''EventLog Started (Boot)'',
         provider = ''-'', computer = ''-'', utc_time = ''2025-08-21T21:59:59+00:00'',
         local_time = ''2025-08-21 17:59:59-04:00'', user = ''-''\<rparr>"
  have s: "find_child ?ev ''System'' = Some ?sys" by code_simp
  have t: "event_times sys_utc LOCAL_TZ ?sys = Inr (?u, ?l)" by code_simp
  have h: "hour ?l = 18" by simp
  have f: "isoformat (CHR '' '') ?l = ''2025-08-21 18:00:00-04:00''" by code_simp
  have h9: "local_hour ''2025-08-21 09:00:00-04:00'' = 9" by (simp add: local_hour_def)
  have h17: "local_hour ''2025-08-21 17:59:59-04:00'' = 17" by (simp add: local_hour_def)
  note c = C5_local_hour_in_window [OF sample_main_rows_window]
  from c have "9 \<le> local_hour (local_time ?ra) \<and> local_hour (local_time ?rb) < 18" by simp
  moreover from c s t h have "event_row sys_utc LOCAL_TZ ?ev = Inr None" by blast
  ultimately show ?thesis using sample_main_rows_window f h9 h17 by blast
qed

subsection \<open>No user for system events\<close>

text \<open>
  C6.  In every row of a run the user is something other than the sentinel \<^verbatim>\<open>"-"\<close> only
  when the event is a security event; a row whose identifier is in the system table has
  user \<^verbatim>\<open>"-"\<close> (and source \<^verbatim>\<open>"system"\<close>), whatever data fields the record holds.
  The sample record has identifier 6006 and a TargetUserName field with text alice.
\<close>

theorem C6_user_only_for_security:
  assumes "main_rows sys tz root = Inr rows" and "r \<in> set rows"
  shows "(user r \<noteq> ''-'' \<longrightarrow> source r = ''security'' \<and> SECURITY_EVENTS (event_id r) \<noteq> None) \<and>
         (SYSTEM_EVENTS (event_id r) \<noteq> None \<longrightarrow> user r = ''-'' \<and> source r = ''system'')"
proof -
  from main_rows_source [OF assms] obtain ev where "event_row sys tz ev = Inr (Some r)" by blast
  from event_row_Some [OF this] obtain eid where
    src: "source r = (if SECURITY_EVENTS eid \<noteq> None then ''security'' else ''system'')" and
    eid: "event_id r = eid" and
    usr: "user r = or_dash (if SECURITY_EVENTS eid \<noteq> None then extract_username ev else None)"
    by auto
  show ?thesis
  proof (cases "SECURITY_EVENTS eid = None")
    case True
    with src eid usr show ?thesis by (simp add: or_dash_def)
  next
    case False
    with tables_disjoint [of eid] have "SYSTEM_EVENTS eid = None" by blast
    with False src eid show ?thesis by simp
  qed
qed

theorem C6_user_only_for_security_witness:
  "spec_data_children
     (sample_event ''6006'' (Some ''2025-08-21T13:05:00Z'') [data_field ''TargetUserName'' ''alice''])
     = [data_field ''TargetUserName'' ''alice''] \<and>
   (\<exists>r. main_rows sys_utc LOCAL_TZ
          (sample_root [sample_event ''9999'' (Some ''2025-08-21T13:05:00Z'') [],
                        sample_event ''6006'' (Some ''2025-08-21T13:05:00Z'')
                          [data_field ''TargetUserName'' ''alice'']]) = Inr [r] \<and>
        event_id r = ''6006'' \<and> SYSTEM_EVENTS (event_id r) \<noteq> None \<and>
        user r = ''-'' \<and> source r = ''system'')"
proof -
  let ?row = "\<lparr>source = ''system'', event_id = ''6006'', label = ''EventLog Stopped (Shutdown)'',
         provider = ''-'', computer = ''-'', utc_time = ''2025-08-21T13:05:00+00:00'',
         local_time = ''2025-08-21 09:05:00-04:00'', user = ''-''\<rparr>"
  have tbl: "SYSTEM_EVENTS (event_id ?row) \<noteq> None" by code_simp
  have dc: "spec_data_children
     (sample_event ''6006'' (Some ''2025-08-21T13:05:00Z'') [data_field ''TargetUserName'' ''alice''])
     = [data_field ''TargetUserName'' ''alice'']" by code_simp
  have "?row \<in> set [?row]" by simp
  from C6_user_only_for_security [OF sample_run_9999_6006 this] tbl
  have "user ?row = ''-'' \<and> source ?row = ''system''" by blast
  with tbl dc sample_run_9999_6006 show ?thesis by simp
qed

subsection \<open>Missing and unparsable timestamps\<close>

text \<open>
  C7.  A record of the document with an allow-listed identifier whose \<^verbatim>\<open>SystemTime\<close>
  attribute is absent (the \<^verbatim>\<open>TimeCreated\<close> element or its attribute), or present but
  parsed neither by \<^verbatim>\<open>try_iso_to_dt_utc\<close> nor by the second \<^verbatim>\<open>fromisoformat\<close> after the
  Z substitution, makes the loop body raise (AttributeError when the attribute is
  absent), and the run ends in that or an earlier exception: \<^const>\<open>main\<close> returns no
  console line and no CSV record at all.
\<close>

theorem C7_bad_timestamp_aborts:
  assumes "ev \<in> set (findall_descendants root ''Event'')"
    and "find_child ev ''System'' = Some system"
    and "get_text system ''EventID'' = Some eid"
    and "ALL_EVENTS eid \<noteq> None"
    and "get_attr system ''TimeCreated'' ''SystemTime'' = None \<or>
         (\<exists>ts e. get_attr system ''TimeCreated'' ''SystemTime'' = Some ts \<and>
                 try_iso_to_dt_utc (Some ts) = None \<and> fromisoformat (replace_Z ts) = Inl e)"
  shows "(get_attr system ''TimeCreated'' ''SystemTime'' = None \<longrightarrow>
            event_row sys tz ev = Inl AttributeError) \<and>
         (\<exists>e. event_row sys tz ev = Inl e) \<and>
         (\<exists>e. main sys tz root = Inl e)"
proof -
  from assms(5) obtain e where t: "event_times sys tz system = Inl e"
    and a: "get_attr system ''TimeCreated'' ''SystemTime'' = None \<longrightarrow> e = AttributeError"
    using event_times_absent [of system sys tz] event_times_unparsable [of system _ _ sys tz]
    by fastforce
  from event_row_times_error [OF assms(2) assms(3) assms(4) t]
  have r: "event_row sys tz ev = Inl e" .
  from main_error(3) [OF assms(1) r] r a show ?thesis by blast
qed

theorem C7_bad_timestamp_aborts_witness:
  "(\<exists>e. main sys_utc LOCAL_TZ
           (sample_root [sample_event ''4624'' (Some ''2025-08-21T13:05:00Z'') [],
                         sample_event ''4634'' None []]) = Inl e) \<and>
   event_row sys_utc LOCAL_TZ (sample_event ''4634'' None []) = Inl AttributeError \<and>
   (\<exists>e. main sys_utc LOCAL_TZ
           (sample_root [sample_event ''4624'' (Some ''2025-08-21T13:05:00Z'') [],
                         sample_event ''6005'' (Some ''yesterday'') []]) = Inl e)"
proof -
  let ?good = "sample_event ''4624'' (Some ''2025-08-21T13:05:00Z'') []"
  let ?ev1 = "sample_event ''4634'' None []"
  let ?sys1 = "Element ''System'' [] None
                 [Element ''EventID'' [] (Some ''4634'') [], Element ''TimeCreated'' [] None []]"
  let ?ev2 = "sample_event ''6005'' (Some ''yesterday'') []"
  let ?sys2 = "Element ''System'' [] None
                 [Element ''EventID'' [] (Some ''6005'') [],
                  Element ''TimeCreated'' [(''SystemTime'', ''yesterday'')] None []]"
  have m1: "?ev1 \<in> set (findall_descendants (sample_root [?good, ?ev1]) ''Event'')" by code_simp
  have s1: "find_child ?ev1 ''System'' = Some ?sys1" by code_simp
  have i1: "get_text ?sys1 ''EventID'' = Some ''4634''" by code_simp
  have k1: "ALL_EVENTS ''4634'' \<noteq> None" by code_simp
  have t1: "get_attr ?sys1 ''TimeCreated'' ''SystemTime'' = None" by code_simp
  note c1 = C7_bad_timestamp_aborts [OF m1 s1 i1 k1 disjI1 [OF t1], of sys_utc LOCAL_TZ]
  have m2: "?ev2 \<in> set (findall_descendants (sample_root [?good, ?ev2]) ''Event'')" by code_simp
  have s2: "find_child ?ev2 ''System'' = Some ?sys2" by code_simp
  have i2: "get_text ?sys2 ''EventID'' = Some ''6005''" by code_simp
  have k2: "ALL_EVENTS ''6005'' \<noteq> None" by code_simp
  have t2: "get_attr ?sys2 ''TimeCreated'' ''SystemTime'' = Some ''yesterday''" by code_simp
  have p2: "try_iso_to_dt_utc (Some ''yesterday'') = None" by code_simp
  have q2: "fromisoformat (replace_Z ''yesterday'') = Inl ValueError" by code_simp
  have h2: "get_attr ?sys2 ''TimeCreated'' ''SystemTime'' = None \<or>
         (\<exists>ts e. get_attr ?sys2 ''TimeCreated'' ''SystemTime'' = Some ts \<and>
                 try_iso_to_dt_utc (Some ts) = None \<and> fromisoformat (replace_Z ts) = Inl e)"
    using t2 p2 q2 by blast
  note c2 = C7_bad_timestamp_aborts [OF m2 s2 i2 k2 h2, of sys_utc LOCAL_TZ]
  from c1 t1 c2 show ?thesis by blast
qed

subsection \<open>Absent optional fields\<close>

text \<open>
  C8.  A record that otherwise qualifies (it has a \<^verbatim>\<open>System\<close> element, an allow-listed
  identifier, a timestamp that converts, and a local hour in the window) is emitted
  whether or not it has a provider, a computer or a user: the loop body yields a row, an
  absent \<^verbatim>\<open>Provider\<close> name, \<^verbatim>\<open>Computer\<close> text or user is the sentinel \<^verbatim>\<open>"-"\<close> in it,
  and the row is among the rows of every run that completes.
\<close>

theorem C8_optional_fields_degrade:
  assumes "find_child ev ''System'' = Some system"
    and "get_text system ''EventID'' = Some eid"
    and "ALL_EVENTS eid \<noteq> None"
    and "event_times sys tz system = Inr (dt_utc, dt_local)"
    and "in_window_local dt_local"
  shows "\<exists>r. event_row sys tz ev = Inr (Some r) \<and>
             (get_attr system ''Provider'' ''Name'' = None \<longrightarrow> provider r = ''-'') \<and>
             (get_text system ''Computer'' = None \<longrightarrow> computer r = ''-'') \<and>
             (extract_username ev = None \<longrightarrow> user r = ''-'') \<and>
             (\<forall>rows. ev \<in> set (findall_descendants root ''Event'') \<longrightarrow>
                     main_rows sys tz root = Inr rows \<longrightarrow> r \<in> set rows)"
proof -
  from assms(3) obtain lbl where lbl: "ALL_EVENTS eid = Some lbl" by blast
  let ?r = "\<lparr>source = (if SECURITY_EVENTS eid \<noteq> None then ''security'' else ''system''),
            event_id = eid,
            label = (if eid = ''4634'' then ''Logoff'' else lbl),
            provider = or_dash (get_attr system ''Provider'' ''Name''),
            computer = or_dash (get_text system ''Computer''),
            utc_time = isoformat (CHR ''T'') dt_utc,
            local_time = isoformat (CHR '' '') dt_local,
            user = or_dash (if SECURITY_EVENTS eid \<noteq> None then extract_username ev else None)\<rparr>"
  from event_row_emits [OF assms(1) assms(2) lbl assms(4) assms(5)]
  have r: "event_row sys tz ev = Inr (Some ?r)" .
  have "\<forall>rows. ev \<in> set (findall_descendants root ''Event'') \<longrightarrow>
                     main_rows sys tz root = Inr rows \<longrightarrow> ?r \<in> set rows"
  proof (intro allI impI)
    fix rows
    assume ev: "ev \<in> set (findall_descendants root ''Event'')"
      and m: "main_rows sys tz root = Inr rows"
    from main_rows_sorted_iter [OF m] obtain rows0
      where it: "iter_relevant_events sys tz root = Inr rows0" and s: "rows = sort_key local_time rows0"
      by blast
    from it have "collect_rows (event_row sys tz) (findall_descendants root ''Event'') = Inr rows0"
      by (simp add: iter_relevant_events_def)
    from collect_rows_emitted [OF this ev r] s show "?r \<in> set rows" by simp
  qed
  with r show ?thesis by (intro exI [of _ ?r]) (simp add: or_dash_def)
qed

theorem C8_optional_fields_degrade_witness:
  "\<exists>r. event_row sys_utc LOCAL_TZ (sample_event ''4624'' (Some ''2025-08-21T13:05:00Z'') []) = Inr (Some r) \<and>
       provider r = ''-'' \<and> computer r = ''-'' \<and> user r = ''-''"
proof -
  let ?ev = "sample_event ''4624'' (Some ''2025-08-21T13:05:00Z'') []"
  let ?sys = "Element ''System'' [] None
                 [Element ''EventID'' [] (Some ''4624'') [],
                  Element ''TimeCreated'' [(''SystemTime'', ''2025-08-21T13:05:00Z'')] None []]"
  let ?u = "\<lparr>year = 2025, month = 8, day = 21, hour = 13, minute = 5, second = 0,
             microsecond = 0, tzinfo = Some 0\<rparr>"
  let ?l = "\<lparr>year = 2025, month = 8, day = 21, hour = 9, minute = 5, second = 0,
             microsecond = 0, tzinfo = Some (- 14400000000)\<rparr>"
  have s: "find_child ?ev ''System'' = Some ?sys" by code_simp
  have i: "get_text ?sys ''EventID'' = Some ''4624''" by code_simp
  have k: "ALL_EVENTS ''4624'' \<noteq> None" by code_simp
  have t: "event_times sys_utc LOCAL_TZ ?sys = Inr (?u, ?l)" by code_simp
  have w: "in_window_local ?l" by code_simp
  have p: "get_attr ?sys ''Provider'' ''Name'' = None" by code_simp
  have c: "get_text ?sys ''Computer'' = None" by code_simp
  have u: "extract_username ?ev = None" by code_simp
  from C8_optional_fields_degrade [OF s i k t w, where root = "sample_root [?ev]"] p c u
  show ?thesis by blast
qed

subsection \<open>Identifiers outside the tables\<close>

text \<open>
  C9.  An event record whose identifier is not a key of the merged table
  \<^const>\<open>ALL_EVENTS\<close>, or that has no identifier at all (no \<^verbatim>\<open>System\<close> element, no
  \<^verbatim>\<open>EventID\<close> element, or one without text), yields no row: the loop body continues.
  Every row of a run carries an \<^verbatim>\<open>event_id\<close> that is a key of the merged table.
\<close>

theorem C9_only_table_events:
  "((\<forall>system eid. find_child ev ''System'' = Some system \<longrightarrow>
        get_text system ''EventID'' = Some eid \<longrightarrow> ALL_EVENTS eid = None)
      \<longrightarrow> event_row sys tz ev = Inr None) \<and>
   (main_rows sys tz root = Inr rows \<longrightarrow> (\<forall>r\<in>set rows. ALL_EVENTS (event_id r) \<noteq> None))"
proof (intro conjI impI ballI)
  assume h: "\<forall>system eid. find_child ev ''System'' = Some system \<longrightarrow>
        get_text system ''EventID'' = Some eid \<longrightarrow> ALL_EVENTS eid = None"
  show "event_row sys tz ev = Inr None"
  proof (cases "find_child ev ''System''")
    case None
    then show ?thesis by (simp add: event_row_def)
  next
    case (Some system)
    show ?thesis
    proof (cases "get_text system ''EventID''")
      case None
      with Some show ?thesis by (simp add: event_row_def)
    next
      case (Some eid)
      with h \<open>find_child ev ''System'' = Some system\<close> have "ALL_EVENTS eid = None" by blast
      with Some \<open>find_child ev ''System'' = Some system\<close> show ?thesis by (simp add: event_row_def)
    qed
  qed
next
  fix r
  assume "main_rows sys tz root = Inr rows" and "r \<in> set rows"
  then obtain ev where "event_row sys tz ev = Inr (Some r)"
    using main_rows_source by blast
  from event_row_Some [OF this] obtain eid lbl where "ALL_EVENTS eid = Some lbl" and "event_id r = eid"
    by auto
  then show "ALL_EVENTS (event_id r) \<noteq> None" by simp
qed

theorem C9_only_table_events_witness:
  "event_row sys_utc LOCAL_TZ (sample_event ''9999'' (Some ''2025-08-21T13:05:00Z'') []) = Inr None \<and>
   ALL_EVENTS ''6006'' \<noteq> None"
proof -
  let ?ev = "sample_event ''9999'' (Some ''2025-08-21T13:05:00Z'') []"
  let ?root = "sample_root [?ev, sample_event ''6006'' (Some ''2025-08-21T13:05:00Z'') [data_field ''TargetUserName'' ''alice'']]"
  let ?row = "\<lparr>source = ''system'', event_id = ''6006'', label = ''EventLog Stopped (Shutdown)'',
            provider = ''-'', computer = ''-'', utc_time = ''2025-08-21T13:05:00+00:00'',
            local_time = ''2025-08-21 09:05:00-04:00'', user = ''-''\<rparr>"
  have none: "ALL_EVENTS ''9999'' = None" by code_simp
  have h: "\<forall>system eid. find_child ?ev ''System'' = Some system \<longrightarrow>
        get_text system ''EventID'' = Some eid \<longrightarrow> ALL_EVENTS eid = None"
    using none by (auto simp: sample_event_def find_child_def get_text_def)
  note c = C9_only_table_events [of ?ev sys_utc LOCAL_TZ ?root "[?row]"]
  from c h have "event_row sys_utc LOCAL_TZ ?ev = Inr None" by blast
  moreover from c sample_run_9999_6006 have "ALL_EVENTS (event_id ?row) \<noteq> None" by simp
  ultimately show ?thesis by simp
qed

subsection \<open>The utc\_time column\<close>

text \<open>
  C10.  When the first parse of the timestamp gives an aware datetime, with whatever
  offset the string carries, the \<^verbatim>\<open>utc_time\<close> of the row is that datetime as parsed:
  its own date and time of day followed by its own offset.  Nothing converts it to
  offset +00:00 first.  For \<^verbatim>\<open>2025-08-21T18:05:00+05:00\<close> the column reads
  \<^verbatim>\<open>2025-08-21T18:05:00+05:00\<close>, not \<^verbatim>\<open>2025-08-21T13:05:00+00:00\<close>.
\<close>

theorem C10_utc_time_keeps_source_offset:
  assumes "event_row sys tz ev = Inr (Some r)"
    and "find_child ev ''System'' = Some system"
    and "try_iso_to_dt_utc (get_attr system ''TimeCreated'' ''SystemTime'') = Some dt"
    and "tzinfo dt = Some off"
  shows "utc_time r = isoformat (CHR ''T'') (dt\<lparr>tzinfo := None\<rparr>) @ format_offset (Some off)"
proof -
  from event_row_Some [OF assms(1)] assms(2) obtain dt_utc dt_local where
    t: "event_times sys tz system = Inr (dt_utc, dt_local)" and
    u: "utc_time r = isoformat (CHR ''T'') dt_utc"
    by auto
  from event_times_aware [OF assms(3) assms(4) t] have "dt_utc = dt" .
  with u assms(4) show ?thesis by (simp add: isoformat_def format_offset_def)
qed

theorem C10_utc_time_keeps_source_offset_witness:
  "\<exists>r. event_row sys_utc LOCAL_TZ (sample_event ''4624'' (Some ''2025-08-21T18:05:00+05:00'') [])
         = Inr (Some r) \<and>
       utc_time r = ''2025-08-21T18:05:00'' @ ''+05:00'' \<and>
       utc_time r \<noteq> ''2025-08-21T13:05:00+00:00''"
proof -
  let ?ev = "sample_event ''4624'' (Some ''2025-08-21T18:05:00+05:00'') []"
  let ?sys = "Element ''System'' [] None
                 [Element ''EventID'' [] (Some ''4624'') [],
                  Element ''TimeCreated'' [(''SystemTime'', ''2025-08-21T18:05:00+05:00'')] None []]"
  let ?dt = "\<lparr>year = 2025, month = 8, day = 21, hour = 18, minute = 5, second = 0,
             microsecond = 0, tzinfo = Some 18000000000\<rparr>"
  have s: "find_child ?ev ''System'' = Some ?sys" by code_simp
  have p: "try_iso_to_dt_utc (get_attr ?sys ''TimeCreated'' ''SystemTime'') = Some ?dt" by code_simp
  have z: "tzinfo ?dt = Some 18000000000" by simp
  have f1: "isoformat (CHR ''T'') (?dt\<lparr>tzinfo := None\<rparr>) = ''2025-08-21T18:05:00''" by code_simp
  have f2: "format_offset (Some 18000000000) = ''+05:00''" by code_simp
  from C10_utc_time_keeps_source_offset [OF sample_row_plus5 s p z] f1 f2 sample_row_plus5
  show ?thesis by simp
qed

end
